theory Spec2Isabelle
  imports Main
begin

section \<open>Data model\<close>

text \<open>
  The application (package \<open>flaskr\<close>) keeps its data in two SQLite tables, \<open>user\<close> and
  \<open>post\<close>, and a client-held session dictionary. A table is the list of its rows in
  insertion order; a row is a record with one field per column.
\<close>

record user_row =
  u_id :: int
  u_username :: string
  u_password :: string

record post_row =
  p_id :: int
  p_title :: string
  p_body :: string
  p_created :: int
  p_author_id :: int

record database =
  user_table :: "user_row list"
  post_table :: "post_row list"

text \<open>
  The row of the query \<open>SELECT p.id, title, body, created, author_id, username FROM post p
  JOIN user u ON p.author_id = u.id\<close> used by \<open>get_post\<close> and \<open>index\<close>.
\<close>

record post_join =
  j_id :: int
  j_title :: string
  j_body :: string
  j_created :: int
  j_author_id :: int
  j_username :: string

text \<open>
  What lives across requests: the database, the session dictionary (the only key the
  application stores is \<open>user_id\<close>) and the queue of flashed messages.
\<close>

record state =
  db :: database
  session :: "string \<rightharpoonup> int"
  flashes :: "string list"

datatype meth = GET | POST

record request =
  req_method :: meth
  form :: "string \<rightharpoonup> string"

text \<open>
  Exceptions that leave a view: \<open>abort(code, description)\<close>, the \<open>BadRequestKeyError\<close> of
  \<open>request.form[key]\<close> on a missing key, the \<open>TypeError\<close> of subscripting \<open>None\<close>
  (\<open>g.user['id']\<close> when \<open>g.user\<close> is \<open>None\<close>), and the \<open>OverflowError\<close> of
  \<open>db.execute\<close> when a Python integer bound to a \<open>?\<close> does not fit the store's signed
  64-bit integer.
\<close>

datatype error =
    Abort nat "string option"
  | BadRequestKeyError string
  | TypeError
  | OverflowError

datatype db_error = IntegrityError

datatype tmpl_args = NoArgs | Posts "post_join list" | Post post_join

datatype response =
    Redirect string
  | Render string tmpl_args
  | Text string

type_synonym result = "(error + response) \<times> state"

section \<open>Storage operations\<close>

text \<open>
  Modelled from the spec: the schema script \<open>schema.sql\<close> is not among the sources. The
  spec gives the logical schema \<open>user(id PK, username UNIQUE NOT NULL, password TEXT NOT
  NULL)\<close>, \<open>post(id PK, title NOT NULL, body, created DEFAULT now, author_id FK\<rightarrow>user.id)\<close>.
  A primary key that the \<open>INSERT\<close> leaves out is allocated by the store as one more than
  the largest id in the table.
\<close>

definition next_id :: "int list \<Rightarrow> int" where
  "next_id ids = fold max ids 0 + 1"

text \<open>
  Modelled from the spec: well-formedness of a store under the schema's constraints
  (primary keys unique, usernames unique). Foreign keys are not part of it: the
  application never switches their enforcement on.
\<close>

definition wf_db :: "database \<Rightarrow> bool" where
  "wf_db d \<longleftrightarrow>
     distinct (map u_id (user_table d)) \<and>
     distinct (map u_username (user_table d)) \<and>
     distinct (map p_id (post_table d))"

text \<open>
  The integers the store can hold and the \<open>sqlite3\<close> module can bind to a query
  parameter: signed 64-bit values.
\<close>

definition sqlite_integer :: "int \<Rightarrow> bool" where
  "sqlite_integer i \<longleftrightarrow> - 9223372036854775808 \<le> i \<and> i \<le> 9223372036854775807"

text \<open>
  Modelled from the spec: the \<open>id\<close> columns are integer primary keys of the store, so
  every stored id is a value the store can hold.
\<close>

definition ids_in_range :: "database \<Rightarrow> bool" where
  "ids_in_range d \<longleftrightarrow>
     list_all sqlite_integer (map u_id (user_table d)) \<and>
     list_all sqlite_integer (map p_id (post_table d))"

text \<open>
  \<open>INSERT INTO user (username, password) VALUES (?, ?)\<close>: the uniqueness constraint on
  \<open>username\<close> (modelled from the spec, see above) raises \<open>IntegrityError\<close>.
\<close>

definition insert_user :: "database \<Rightarrow> string \<Rightarrow> string \<Rightarrow> db_error + database" where
  "insert_user d username password =
     (if username \<in> set (map u_username (user_table d)) then Inl IntegrityError
      else Inr (d\<lparr>user_table := user_table d @
             [\<lparr>u_id = next_id (map u_id (user_table d)),
               u_username = username, u_password = password\<rparr>]\<rparr>))"

text \<open>\<open>SELECT * FROM user where username = ?\<close> with \<open>fetchone()\<close>.\<close>

definition select_user_by_username :: "database \<Rightarrow> string \<Rightarrow> user_row option" where
  "select_user_by_username d username =
     find (\<lambda>u. u_username u = username) (user_table d)"

text \<open>
  \<open>SELECT * FROM user WHERE id = ?\<close> with \<open>fetchone()\<close>. The id bound here is the
  session's \<open>user_id\<close>; the session is signed and \<open>login\<close> only ever stores the id of a
  fetched row there.
\<close>

definition select_user_by_id :: "database \<Rightarrow> int \<Rightarrow> user_row option" where
  "select_user_by_id d user_id = find (\<lambda>u. u_id u = user_id) (user_table d)"

text \<open>The inner join \<open>post p JOIN user u ON p.author_id = u.id\<close>.\<close>

definition join_row :: "post_row \<Rightarrow> user_row \<Rightarrow> post_join" where
  "join_row p u =
     \<lparr>j_id = p_id p, j_title = p_title p, j_body = p_body p, j_created = p_created p,
      j_author_id = p_author_id p, j_username = u_username u\<rparr>"

definition join_post_user :: "database \<Rightarrow> post_join list" where
  "join_post_user d =
     concat (map (\<lambda>p. map (join_row p)
                        (filter (\<lambda>u. p_author_id p = u_id u) (user_table d)))
                 (post_table d))"

text \<open>
  The join restricted by \<open>WHERE p.id = ?\<close>, with \<open>fetchone()\<close>. The id comes from the
  URL, whose integer converter accepts any run of digits; binding one that the store
  cannot hold raises \<open>OverflowError\<close> before the query runs.
\<close>

definition select_post_by_id :: "database \<Rightarrow> int \<Rightarrow> error + post_join option" where
  "select_post_by_id d id' =
     (if sqlite_integer id' then Inr (find (\<lambda>r. j_id r = id') (join_post_user d))
      else Inl OverflowError)"

text \<open>
  The join with \<open>ORDER BY created DESC\<close> and \<open>fetchall()\<close>. Rows with equal timestamps
  keep the order of the join (the order SQL leaves open).
\<close>

definition select_posts :: "database \<Rightarrow> post_join list" where
  "select_posts d = sort_key (\<lambda>r. - j_created r) (join_post_user d)"

text \<open>
  \<open>INSERT INTO post (title, body, author_id) VALUES (?, ?, ?)\<close>; \<open>created\<close> defaults to the
  current time, which is a parameter here.
\<close>

definition insert_post :: "database \<Rightarrow> int \<Rightarrow> string \<Rightarrow> string \<Rightarrow> int \<Rightarrow> database" where
  "insert_post d now title body author =
     d\<lparr>post_table := post_table d @
         [\<lparr>p_id = next_id (map p_id (post_table d)), p_title = title, p_body = body,
           p_created = now, p_author_id = author\<rparr>]\<rparr>"

text \<open>
  \<open>UPDATE post SET title = ?, body = ? WHERE id = ?\<close>. The views run it, and the
  \<open>DELETE\<close> below, only after \<open>get_post\<close> has returned for the same id, so the id binds.
\<close>

definition update_post :: "database \<Rightarrow> string \<Rightarrow> string \<Rightarrow> int \<Rightarrow> database" where
  "update_post d title body id' =
     d\<lparr>post_table :=
         map (\<lambda>p. if p_id p = id' then p\<lparr>p_title := title, p_body := body\<rparr> else p)
             (post_table d)\<rparr>"

text \<open>\<open>DELETE FROM post WHERE id = ?\<close>.\<close>

definition delete_post :: "database \<Rightarrow> int \<Rightarrow> database" where
  "delete_post d id' = d\<lparr>post_table := filter (\<lambda>p. p_id p \<noteq> id') (post_table d)\<rparr>"

section \<open>Authentication blueprint (\<open>flaskr/auth.py\<close>)\<close>

definition flash :: "string \<Rightarrow> state \<Rightarrow> state" where
  "flash message s = s\<lparr>flashes := flashes s @ [message]\<rparr>"

text \<open>
  \<open>register\<close>. The salted hash function \<open>generate_password_hash\<close> of the library is a
  parameter.
\<close>

definition register :: "(string \<Rightarrow> string) \<Rightarrow> request \<Rightarrow> state \<Rightarrow> result" where
  "register generate_password_hash req s =
     (if req_method req = POST then
        (case form req ''username'' of
           None \<Rightarrow> (Inl (BadRequestKeyError ''username''), s)
         | Some username \<Rightarrow>
        (case form req ''password'' of
           None \<Rightarrow> (Inl (BadRequestKeyError ''password''), s)
         | Some password \<Rightarrow>
        (let error =
              (if username = [] then Some ''username not provided''
               else if password = [] then Some ''password not provided''
               else None)
         in case error of
              None \<Rightarrow>
                (case insert_user (db s) username (generate_password_hash password) of
                   Inl IntegrityError \<Rightarrow>
                     (Inr (Render ''auth/register.html'' NoArgs),
                      flash (''user '' @ username @ '' is already registered'') s)
                 | Inr d \<Rightarrow> (Inr (Redirect ''auth.login''), s\<lparr>db := d\<rparr>))
            | Some e \<Rightarrow> (Inr (Render ''auth/register.html'' NoArgs), flash e s))))
      else (Inr (Render ''auth/register.html'' NoArgs), s))"

text \<open>
  \<open>login\<close>. The library's \<open>check_password_hash\<close> is a parameter. The test
  \<open>user is None or not check_password_hash(user['password'], password)\<close> is the case
  distinction on the fetched row.
\<close>

definition login :: "(string \<Rightarrow> string \<Rightarrow> bool) \<Rightarrow> request \<Rightarrow> state \<Rightarrow> result" where
  "login check_password_hash req s =
     (if req_method req = POST then
        (case form req ''username'' of
           None \<Rightarrow> (Inl (BadRequestKeyError ''username''), s)
         | Some username \<Rightarrow>
        (case form req ''password'' of
           None \<Rightarrow> (Inl (BadRequestKeyError ''password''), s)
         | Some password \<Rightarrow>
        (let user = select_user_by_username (db s) username;
             error =
               (case user of
                  None \<Rightarrow> Some ''incorrect username or password''
                | Some u \<Rightarrow>
                    if \<not> check_password_hash (u_password u) password
                    then Some ''incorrect username or password'' else None)
         in case error of
              None \<Rightarrow>
                (case user of
                   None \<Rightarrow> (Inl TypeError, s\<lparr>session := Map.empty\<rparr>)
                 | Some u \<Rightarrow>
                     (Inr (Redirect ''index''),
                      s\<lparr>session := Map.empty(''user_id'' \<mapsto> u_id u)\<rparr>))
            | Some e \<Rightarrow> (Inr (Render ''auth/login.html'' NoArgs), flash e s))))
      else (Inr (Render ''auth/login.html'' NoArgs), s))"

text \<open>\<open>load_logged_in_user\<close>, run before every view; its value is \<open>g.user\<close>.\<close>

definition load_logged_in_user :: "state \<Rightarrow> user_row option" where
  "load_logged_in_user s =
     (case session s ''user_id'' of
        None \<Rightarrow> None
      | Some user_id \<Rightarrow> select_user_by_id (db s) user_id)"

definition logout :: "request \<Rightarrow> state \<Rightarrow> result" where
  "logout req s = (Inr (Redirect ''index''), s\<lparr>session := Map.empty\<rparr>)"

text \<open>
  The decorator \<open>login_required\<close>: \<open>g.user\<close> is the first argument of the wrapped view,
  \<open>kwargs\<close> the view's own arguments.
\<close>

definition login_required ::
  "(user_row option \<Rightarrow> 'k \<Rightarrow> request \<Rightarrow> state \<Rightarrow> result) \<Rightarrow>
   user_row option \<Rightarrow> 'k \<Rightarrow> request \<Rightarrow> state \<Rightarrow> result" where
  "login_required view g_user kwargs req s =
     (if g_user = None then (Inr (Redirect ''auth.login''), s)
      else view g_user kwargs req s)"

section \<open>Blog blueprint (\<open>flaskr/blog.py\<close>)\<close>

text \<open>Decimal rendering of an integer, for the f-string of \<open>get_post\<close>.\<close>

function str_nat :: "nat \<Rightarrow> string" where
  "str_nat n =
     (if n < 10 then [''0123456789'' ! n]
      else str_nat (n div 10) @ [''0123456789'' ! (n mod 10)])"
  by pat_completeness auto
termination
  by (relation "measure id") auto

declare str_nat.simps [simp del]

definition str_int :: "int \<Rightarrow> string" where
  "str_int i = (if i < 0 then ''-'' @ str_nat (nat (- i)) else str_nat (nat i))"

text \<open>
  \<open>get_post(id, check_author=True)\<close>. The conjunction \<open>check_author and
  post['author_id'] != g.user['id']\<close> reads \<open>g.user\<close> only when \<open>check_author\<close> holds;
  subscripting \<open>None\<close> raises \<open>TypeError\<close>.
\<close>

definition get_post :: "database \<Rightarrow> user_row option \<Rightarrow> int \<Rightarrow> bool \<Rightarrow> error + post_join" where
  "get_post d g_user id' check_author =
     (case select_post_by_id d id' of
        Inl e \<Rightarrow> Inl e
      | Inr None \<Rightarrow>
          Inl (Abort 404 (Some (''post id '' @ str_int id' @ '' does not exist'')))
      | Inr (Some post) \<Rightarrow>
          if check_author then
            (case g_user of
               None \<Rightarrow> Inl TypeError
             | Some u \<Rightarrow>
                 if j_author_id post \<noteq> u_id u then Inl (Abort 403 None) else Inr post)
          else Inr post)"

definition index :: "request \<Rightarrow> state \<Rightarrow> result" where
  "index req s = (Inr (Render ''blog/index.html'' (Posts (select_posts (db s)))), s)"

text \<open>
  \<open>create\<close>; its \<open>@login_required\<close> line is commented out in the source, so the view is
  registered as it is. The argument tuple \<open>(title, body, g.user['id'])\<close> is evaluated
  before \<open>db.execute\<close> runs. \<open>now\<close> is the store's clock at the insert.
\<close>

definition create :: "int \<Rightarrow> user_row option \<Rightarrow> request \<Rightarrow> state \<Rightarrow> result" where
  "create now g_user req s =
     (if req_method req = POST then
        (case form req ''title'' of
           None \<Rightarrow> (Inl (BadRequestKeyError ''title''), s)
         | Some title \<Rightarrow>
        (case form req ''body'' of
           None \<Rightarrow> (Inl (BadRequestKeyError ''body''), s)
         | Some body \<Rightarrow>
        (let error = (if title = [] then Some ''title is required'' else None)
         in case error of
              Some e \<Rightarrow> (Inr (Render ''blog/create.html'' NoArgs), flash e s)
            | None \<Rightarrow>
                (case g_user of
                   None \<Rightarrow> (Inl TypeError, s)
                 | Some u \<Rightarrow>
                     (Inr (Redirect ''blog.index''),
                      s\<lparr>db := insert_post (db s) now title body (u_id u)\<rparr>)))))
      else (Inr (Render ''blog/create.html'' NoArgs), s))"

text \<open>The body of \<open>update\<close>, before the decorator is applied.\<close>

definition update_view :: "user_row option \<Rightarrow> int \<Rightarrow> request \<Rightarrow> state \<Rightarrow> result" where
  "update_view g_user id' req s =
     (case get_post (db s) g_user id' True of
        Inl e \<Rightarrow> (Inl e, s)
      | Inr post \<Rightarrow>
          if req_method req = POST then
            (case form req ''title'' of
               None \<Rightarrow> (Inl (BadRequestKeyError ''title''), s)
             | Some title \<Rightarrow>
            (case form req ''body'' of
               None \<Rightarrow> (Inl (BadRequestKeyError ''body''), s)
             | Some body \<Rightarrow>
            (let error = (if title = [] then Some ''title is required'' else None)
             in case error of
                  Some e \<Rightarrow> (Inr (Render ''blog/update.html'' (Post post)), flash e s)
                | None \<Rightarrow>
                    (Inr (Redirect ''blog.index''),
                     s\<lparr>db := update_post (db s) title body id'\<rparr>))))
          else (Inr (Render ''blog/update.html'' (Post post)), s))"

definition update :: "user_row option \<Rightarrow> int \<Rightarrow> request \<Rightarrow> state \<Rightarrow> result" where
  "update = login_required update_view"

text \<open>The body of \<open>delete\<close>, before the decorator is applied.\<close>

definition delete_view :: "user_row option \<Rightarrow> int \<Rightarrow> request \<Rightarrow> state \<Rightarrow> result" where
  "delete_view g_user id' req s =
     (case get_post (db s) g_user id' True of
        Inl e \<Rightarrow> (Inl e, s)
      | Inr post \<Rightarrow> (Inr (Redirect ''blog.index''), s\<lparr>db := delete_post (db s) id'\<rparr>))"

definition delete :: "user_row option \<Rightarrow> int \<Rightarrow> request \<Rightarrow> state \<Rightarrow> result" where
  "delete = login_required delete_view"

section \<open>Request handling (\<open>flaskr/__init__.py\<close>)\<close>

text \<open>
  The URL map of \<open>create_app\<close>: the rules of both blueprints and \<open>/hello\<close>. A rule
  without \<open>methods\<close> accepts \<open>GET\<close> only; a request with another method is answered with
  405. The converter of \<open><int:id>\<close> matches digits only, so the id of a matched rule is
  a natural number, of any size.
\<close>

datatype route =
    Hello
  | AuthRegister
  | AuthLogin
  | AuthLogout
  | BlogIndex
  | BlogCreate
  | BlogUpdate nat
  | BlogDelete nat

fun allowed_methods :: "route \<Rightarrow> meth list" where
  "allowed_methods Hello = [GET]"
| "allowed_methods AuthRegister = [GET, POST]"
| "allowed_methods AuthLogin = [GET, POST]"
| "allowed_methods AuthLogout = [GET]"
| "allowed_methods BlogIndex = [GET]"
| "allowed_methods BlogCreate = [GET, POST]"
| "allowed_methods (BlogUpdate id') = [GET, POST]"
| "allowed_methods (BlogDelete id') = [POST]"

text \<open>
  One request: \<open>load_logged_in_user\<close> fills \<open>g.user\<close>, then the view of the matched rule
  runs. The two library hash functions and the clock are parameters.
\<close>

definition handle_request ::
  "(string \<Rightarrow> string) \<Rightarrow> (string \<Rightarrow> string \<Rightarrow> bool) \<Rightarrow> int \<Rightarrow>
   route \<Rightarrow> request \<Rightarrow> state \<Rightarrow> result" where
  "handle_request generate_password_hash check_password_hash now rt req s =
     (let g_user = load_logged_in_user s in
      if req_method req \<notin> set (allowed_methods rt) then (Inl (Abort 405 None), s)
      else case rt of
        Hello \<Rightarrow> (Inr (Text ''hello world''), s)
      | AuthRegister \<Rightarrow> register generate_password_hash req s
      | AuthLogin \<Rightarrow> login check_password_hash req s
      | AuthLogout \<Rightarrow> logout req s
      | BlogIndex \<Rightarrow> index req s
      | BlogCreate \<Rightarrow> create now g_user req s
      | BlogUpdate id' \<Rightarrow> update g_user (int id') req s
      | BlogDelete id' \<Rightarrow> delete g_user (int id') req s)"

section \<open>Example data\<close>

text \<open>
  A store with two users, alice (id 1) and bob (id 2), two posts of alice and one post
  (id 3) whose author id 9 is no user's id. The example hash function prefixes the
  password with \<open>h:\<close>.
\<close>

definition ex_hash :: "string \<Rightarrow> string" where
  "ex_hash password = ''h:'' @ password"

definition ex_check :: "string \<Rightarrow> string \<Rightarrow> bool" where
  "ex_check pwhash password \<longleftrightarrow> pwhash = ''h:'' @ password"

definition alice :: user_row where
  "alice = \<lparr>u_id = 1, u_username = ''alice'', u_password = ''h:pw1''\<rparr>"

definition bob :: user_row where
  "bob = \<lparr>u_id = 2, u_username = ''bob'', u_password = ''h:pw2''\<rparr>"

definition post1 :: post_row where
  "post1 = \<lparr>p_id = 1, p_title = ''T'', p_body = ''B'', p_created = 100, p_author_id = 1\<rparr>"

definition post2 :: post_row where
  "post2 = \<lparr>p_id = 2, p_title = ''U'', p_body = ''C'', p_created = 200, p_author_id = 1\<rparr>"

definition post3 :: post_row where
  "post3 = \<lparr>p_id = 3, p_title = ''V'', p_body = ''D'', p_created = 300, p_author_id = 9\<rparr>"

definition ex_db :: database where
  "ex_db = \<lparr>user_table = [alice, bob], post_table = [post1, post2, post3]\<rparr>"

text \<open>Sessions: none, alice's, bob's, and a stale one.\<close>

definition anon_state :: state where
  "anon_state = \<lparr>db = ex_db, session = Map.empty, flashes = []\<rparr>"

definition alice_state :: state where
  "alice_state = \<lparr>db = ex_db, session = Map.empty(''user_id'' \<mapsto> 1), flashes = []\<rparr>"

definition bob_state :: state where
  "bob_state = \<lparr>db = ex_db, session = Map.empty(''user_id'' \<mapsto> 2), flashes = []\<rparr>"

definition stale_state :: state where
  "stale_state = \<lparr>db = ex_db, session = Map.empty(''user_id'' \<mapsto> 7), flashes = []\<rparr>"

text \<open>
  Requests: a submitted credentials form, a submitted post form, a \<open>POST\<close> that carries
  a title field only, a \<open>POST\<close> without fields, a plain \<open>GET\<close>.
\<close>

definition credentials_form :: "string \<Rightarrow> string \<Rightarrow> request" where
  "credentials_form username password =
     \<lparr>req_method = POST, form = Map.empty(''username'' \<mapsto> username, ''password'' \<mapsto> password)\<rparr>"

definition post_form :: "string \<Rightarrow> string \<Rightarrow> request" where
  "post_form title body =
     \<lparr>req_method = POST, form = Map.empty(''title'' \<mapsto> title, ''body'' \<mapsto> body)\<rparr>"

definition title_form :: "string \<Rightarrow> request" where
  "title_form title = \<lparr>req_method = POST, form = Map.empty(''title'' \<mapsto> title)\<rparr>"

definition post_request :: request where
  "post_request = \<lparr>req_method = POST, form = Map.empty\<rparr>"

definition get_request :: request where
  "get_request = \<lparr>req_method = GET, form = Map.empty\<rparr>"

lemmas req_defs =
  credentials_form_def post_form_def title_form_def post_request_def get_request_def

lemmas ex_defs =
  ex_db_def alice_def bob_def post1_def post2_def post3_def
  anon_state_def alice_state_def bob_state_def stale_state_def ex_hash_def ex_check_def

section \<open>Lookup lemmas\<close>

lemma find_None_iff_set: "find P xs = None \<longleftrightarrow> (\<forall>x\<in>set xs. \<not> P x)"
  by (induction xs) auto

lemma find_append_cases:
  "find P (xs @ ys) = (case find P xs of None \<Rightarrow> find P ys | Some x \<Rightarrow> Some x)"
  by (induction xs) auto

lemma filter_key_distinct:
  "distinct (map f xs) \<Longrightarrow> x \<in> set xs \<Longrightarrow> filter (\<lambda>y. f x = f y) xs = [x]"
proof (induction xs)
  case Nil
  then show ?case by simp
next
  case (Cons a xs)
  show ?case
  proof (cases "a = x")
    case True
    with Cons.prems have "\<forall>y\<in>set xs. f y \<noteq> f x" by (auto simp: image_iff)
    then have "filter (\<lambda>y. f x = f y) xs = []" by (auto simp: filter_empty_conv)
    with True show ?thesis by simp
  next
    case False
    with Cons.prems have "x \<in> set xs" and "f a \<noteq> f x" by (auto simp: image_iff)
    with Cons show ?thesis by auto
  qed
qed

lemma find_key_distinct:
  "distinct (map f xs) \<Longrightarrow> x \<in> set xs \<Longrightarrow> find (\<lambda>y. f y = f x) xs = Some x"
proof (induction xs)
  case Nil
  then show ?case by simp
next
  case (Cons a xs)
  then show ?case by (cases "a = x") (auto simp: image_iff)
qed

lemma key_inj_distinct:
  "distinct (map f xs) \<Longrightarrow> x \<in> set xs \<Longrightarrow> y \<in> set xs \<Longrightarrow> f x = f y \<Longrightarrow> x = y"
  by (auto simp: distinct_map dest: inj_onD)

lemma j_id_join_row [simp]: "j_id (join_row p u) = p_id p"
  by (simp add: join_row_def)

lemma j_author_id_join_row [simp]: "j_author_id (join_row p u) = p_author_id p"
  by (simp add: join_row_def)

lemma find_join_other:
  "p_id q \<noteq> i \<Longrightarrow> find (\<lambda>r. j_id r = i) (map (join_row q) us) = None"
  by (simp add: find_None_iff_set)

lemma ids_in_range_post:
  "ids_in_range d \<Longrightarrow> p \<in> set (post_table d) \<Longrightarrow> sqlite_integer (p_id p)"
  by (auto simp: ids_in_range_def list_all_iff)

lemma select_post_by_id_overflow:
  "\<not> sqlite_integer i \<Longrightarrow> select_post_by_id d i = Inl OverflowError"
  by (simp add: select_post_by_id_def)


lemma find_join_post:
  "distinct (map p_id ps) \<Longrightarrow> p \<in> set ps \<Longrightarrow>
   find (\<lambda>r. j_id r = p_id p)
     (concat (map (\<lambda>q. map (join_row q) (filter (\<lambda>u. p_author_id q = u_id u) us)) ps)) =
   find (\<lambda>r. j_id r = p_id p)
     (map (join_row p) (filter (\<lambda>u. p_author_id p = u_id u) us))"
proof (induction ps)
  case Nil
  then show ?case by simp
next
  case (Cons a ps)
  show ?case
  proof (cases "a = p")
    case True
    with Cons.prems have "\<forall>q\<in>set ps. p_id q \<noteq> p_id p" by (auto simp: image_iff)
    then have "find (\<lambda>r. j_id r = p_id p)
        (concat (map (\<lambda>q. map (join_row q) (filter (\<lambda>u. p_author_id q = u_id u) us)) ps)) = None"
      by (auto simp: find_None_iff_set)
    with True show ?thesis by (simp add: find_append_cases split: option.splits)
  next
    case False
    with Cons.prems have "p \<in> set ps" and "p_id a \<noteq> p_id p" by (auto simp: image_iff)
    with Cons show ?thesis by (simp add: find_append_cases find_join_other)
  qed
qed

lemma select_post_by_id_owned:
  assumes "wf_db d" and "ids_in_range d" and "p \<in> set (post_table d)"
    and "u \<in> set (user_table d)" and "p_author_id p = u_id u"
  shows "select_post_by_id d (p_id p) = Inr (Some (join_row p u))"
proof -
  from assms have "filter (\<lambda>v. p_author_id p = u_id v) (user_table d) = [u]"
    using filter_key_distinct [of u_id "user_table d" u] by (simp add: wf_db_def)
  with assms show ?thesis
    by (simp add: select_post_by_id_def join_post_user_def wf_db_def find_join_post
        ids_in_range_post)
qed

lemma select_post_by_id_orphan:
  assumes "wf_db d" and "ids_in_range d" and "p \<in> set (post_table d)"
    and "p_author_id p \<notin> set (map u_id (user_table d))"
  shows "select_post_by_id d (p_id p) = Inr None"
proof -
  from assms have "filter (\<lambda>v. p_author_id p = u_id v) (user_table d) = []"
    by (auto simp: filter_empty_conv)
  with assms show ?thesis
    by (simp add: select_post_by_id_def join_post_user_def wf_db_def find_join_post
        ids_in_range_post)
qed

lemma select_user_by_username_present:
  "wf_db d \<Longrightarrow> u \<in> set (user_table d) \<Longrightarrow> select_user_by_username d (u_username u) = Some u"
  by (simp add: select_user_by_username_def wf_db_def find_key_distinct)

lemma select_user_by_id_present:
  "wf_db d \<Longrightarrow> u \<in> set (user_table d) \<Longrightarrow> select_user_by_id d (u_id u) = Some u"
  by (simp add: select_user_by_id_def wf_db_def find_key_distinct)

lemma update_post_rows:
  assumes "distinct (map p_id ps)" and "p \<in> set ps"
  shows "map (\<lambda>q. if p_id q = p_id p then q\<lparr>p_title := t, p_body := b\<rparr> else q) ps =
         map (\<lambda>q. if q = p then q\<lparr>p_title := t, p_body := b\<rparr> else q) ps"
proof (rule map_cong [OF refl])
  fix q assume "q \<in> set ps"
  with assms have "p_id q = p_id p \<longleftrightarrow> q = p"
    using key_inj_distinct [of p_id ps q p] by auto
  then show "(if p_id q = p_id p then q\<lparr>p_title := t, p_body := b\<rparr> else q) =
             (if q = p then q\<lparr>p_title := t, p_body := b\<rparr> else q)" by simp
qed

section \<open>The schema constraints are preserved\<close>

lemma fold_max_ge: "(a::int) \<le> fold max xs a"
proof (induction xs arbitrary: a)
  case Nil
  show ?case by simp
next
  case (Cons x xs)
  have "a \<le> max x a" by simp
  also have "\<dots> \<le> fold max xs (max x a)" by (rule Cons.IH)
  finally show ?case by simp
qed

lemma fold_max_upper: "x \<in> set xs \<Longrightarrow> (x::int) \<le> fold max xs a"
proof (induction xs arbitrary: a)
  case Nil
  then show ?case by simp
next
  case (Cons y ys)
  show ?case
  proof (cases "x = y")
    case True
    have "x \<le> max y a" using True by simp
    also have "\<dots> \<le> fold max ys (max y a)" by (rule fold_max_ge)
    finally show ?thesis by simp
  next
    case False
    with Cons.prems have "x \<in> set ys" by simp
    then show ?thesis using Cons.IH by simp
  qed
qed

lemma next_id_fresh: "next_id ids \<notin> set ids"
proof
  assume "next_id ids \<in> set ids"
  then have "next_id ids \<le> fold max ids 0" by (rule fold_max_upper)
  then show False by (simp add: next_id_def)
qed

lemma wf_db_insert_user:
  "wf_db d \<Longrightarrow> insert_user d username password = Inr d' \<Longrightarrow> wf_db d'"
  using next_id_fresh [of "map u_id (user_table d)"]
  by (auto simp: wf_db_def insert_user_def split: if_splits)

lemma wf_db_insert_post: "wf_db d \<Longrightarrow> wf_db (insert_post d now title body author)"
  using next_id_fresh [of "map p_id (post_table d)"]
  by (auto simp: wf_db_def insert_post_def)

lemma map_p_id_update:
  "map p_id (map (\<lambda>p. if p_id p = i then p\<lparr>p_title := title, p_body := body\<rparr> else p) ps) =
   map p_id ps"
  by (induction ps) auto

lemma wf_db_update_post: "wf_db d \<Longrightarrow> wf_db (update_post d title body i)"
  by (simp add: wf_db_def update_post_def map_p_id_update del: map_map)

lemma wf_db_delete_post: "wf_db d \<Longrightarrow> wf_db (delete_post d i)"
  by (simp add: wf_db_def delete_post_def distinct_map_filter)

lemma wf_db_register:
  "wf_db (db s) \<Longrightarrow> wf_db (db (snd (register generate_password_hash req s)))"
  by (auto simp: register_def flash_def Let_def
      split: option.splits sum.splits db_error.splits dest: wf_db_insert_user)

lemma wf_db_login: "wf_db (db s) \<Longrightarrow> wf_db (db (snd (login check_password_hash req s)))"
  by (auto simp: login_def flash_def Let_def split: option.splits)

lemma wf_db_create: "wf_db (db s) \<Longrightarrow> wf_db (db (snd (create now g_user req s)))"
  by (auto simp: create_def flash_def Let_def wf_db_insert_post split: option.splits)

lemma wf_db_update: "wf_db (db s) \<Longrightarrow> wf_db (db (snd (update g_user i req s)))"
  by (auto simp: update_def update_view_def login_required_def flash_def Let_def
      wf_db_update_post split: option.splits sum.splits)

lemma wf_db_delete: "wf_db (db s) \<Longrightarrow> wf_db (db (snd (delete g_user i req s)))"
  by (auto simp: delete_def delete_view_def login_required_def wf_db_delete_post
      split: option.splits sum.splits)

lemma wf_db_handle_request:
  assumes "wf_db (db s)"
  shows "wf_db (db (snd (handle_request generate_password_hash check_password_hash now rt req s)))"
  using assms
  by (cases rt)
    (simp_all add: handle_request_def Let_def logout_def index_def wf_db_register wf_db_login
      wf_db_create wf_db_update wf_db_delete)

lemma wf_ex_db: "wf_db ex_db"
  by (simp add: wf_db_def ex_defs)

lemma ids_in_range_update_post:
  "ids_in_range d \<Longrightarrow> ids_in_range (update_post d title body i)"
  by (simp add: ids_in_range_def update_post_def map_p_id_update del: map_map)

lemma ids_in_range_delete_post: "ids_in_range d \<Longrightarrow> ids_in_range (delete_post d i)"
  by (auto simp: ids_in_range_def delete_post_def list_all_iff)

lemma ids_in_range_ex_db: "ids_in_range ex_db"
  by (simp add: ids_in_range_def sqlite_integer_def ex_defs)

section \<open>Properties\<close>

text \<open>
  Claim C1. Creating a post is meant to need a logged-in user, as \<open>update\<close> and
  \<open>delete\<close> do. The code registers \<open>create\<close> without the decorator: an anonymous
  \<open>GET /create\<close> is answered with the form, not with the redirect to the login view
  that the guarded \<open>update\<close> gives in the same state; an anonymous \<open>POST\<close> with a
  title ends in \<open>TypeError\<close>.
\<close>

theorem create_guard_missing:
  "load_logged_in_user anon_state = None \<and>
   handle_request ex_hash ex_check 400 BlogCreate get_request anon_state =
     (Inr (Render ''blog/create.html'' NoArgs), anon_state) \<and>
   handle_request ex_hash ex_check 400 (BlogUpdate 1) get_request anon_state =
     (Inr (Redirect ''auth.login''), anon_state) \<and>
   handle_request ex_hash ex_check 400 BlogCreate (post_form ''T'' ''B'') anon_state =
     (Inl TypeError, anon_state)"
  by (simp add: handle_request_def load_logged_in_user_def create_def update_def
      login_required_def anon_state_def req_defs)

text \<open>
  Claim C2. In a store that satisfies the schema, a login with a registered user's name
  and a password that verifies redirects to the index and leaves a session that
  \<open>load_logged_in_user\<close> resolves to that user's row; after \<open>logout\<close> the session
  resolves to \<open>None\<close>. Neither depends on what the session held before.
\<close>

theorem session_state_machine:
  assumes "wf_db (db s)" and "u \<in> set (user_table (db s))"
    and "check_password_hash (u_password u) password"
    and "req_method req = POST" and "form req ''username'' = Some (u_username u)"
    and "form req ''password'' = Some password"
  shows "fst (login check_password_hash req s) = Inr (Redirect ''index'') \<and>
         load_logged_in_user (snd (login check_password_hash req s)) = Some u \<and>
         load_logged_in_user (snd (logout req' s)) = None"
  using assms
  by (simp add: login_def logout_def load_logged_in_user_def
      select_user_by_username_present select_user_by_id_present)

theorem session_state_machine_witness:
  "wf_db (db bob_state) \<and> alice \<in> set (user_table (db bob_state)) \<and>
   ex_check (u_password alice) ''pw1'' \<and>
   req_method (credentials_form ''alice'' ''pw1'') = POST \<and>
   form (credentials_form ''alice'' ''pw1'') ''username'' = Some (u_username alice) \<and>
   form (credentials_form ''alice'' ''pw1'') ''password'' = Some ''pw1'' \<and>
   fst (login ex_check (credentials_form ''alice'' ''pw1'') bob_state) = Inr (Redirect ''index'') \<and>
   load_logged_in_user (snd (login ex_check (credentials_form ''alice'' ''pw1'') bob_state)) = Some alice \<and>
   load_logged_in_user (snd (logout get_request bob_state)) = None"
proof -
  have h: "wf_db (db bob_state)" using wf_ex_db by (simp add: bob_state_def)
  show ?thesis
    using session_state_machine [of bob_state alice ex_check "''pw1''"
        "credentials_form ''alice'' ''pw1''" get_request] h
    by (simp add: ex_defs req_defs)
qed

text \<open>
  Claim C3. For two distinct users \<open>a\<close> and \<open>b\<close> and a post whose author is
  \<open>a\<close>, \<open>get_post\<close> with the author check is aborted with 403 when \<open>g.user\<close> is
  \<open>b\<close>; when \<open>g.user\<close> is \<open>a\<close> it returns the post: the row with the post's id,
  title, body, creation time and author id, and \<open>a\<close>'s username.
\<close>

theorem ownership_isolation:
  assumes "wf_db d" and "ids_in_range d"
    and "a \<in> set (user_table d)" and "b \<in> set (user_table d)"
    and "a \<noteq> b" and "p \<in> set (post_table d)" and "p_author_id p = u_id a"
  shows "get_post d (Some b) (p_id p) True = Inl (Abort 403 None) \<and>
         get_post d (Some a) (p_id p) True =
           Inr \<lparr>j_id = p_id p, j_title = p_title p, j_body = p_body p,
                j_created = p_created p, j_author_id = p_author_id p,
                j_username = u_username a\<rparr>"
proof -
  from assms have sel: "select_post_by_id d (p_id p) = Inr (Some (join_row p a))"
    by (simp add: select_post_by_id_owned)
  from assms have "u_id a \<noteq> u_id b"
    using key_inj_distinct [of u_id "user_table d" a b] by (auto simp: wf_db_def)
  with sel assms show ?thesis by (simp add: get_post_def join_row_def)
qed

theorem ownership_isolation_witness:
  "wf_db ex_db \<and> ids_in_range ex_db \<and>
   alice \<in> set (user_table ex_db) \<and> bob \<in> set (user_table ex_db) \<and>
   alice \<noteq> bob \<and> post1 \<in> set (post_table ex_db) \<and> p_author_id post1 = u_id alice \<and>
   get_post ex_db (Some bob) 1 True = Inl (Abort 403 None) \<and>
   get_post ex_db (Some alice) 1 True =
     Inr \<lparr>j_id = 1, j_title = ''T'', j_body = ''B'', j_created = 100, j_author_id = 1,
          j_username = ''alice''\<rparr>"
  using ownership_isolation [of ex_db alice bob post1] wf_ex_db ids_in_range_ex_db
  by (simp add: ex_defs)

text \<open>
  Claim C4. A login whose username is in no row, or whose password does not verify
  against the row's hash, renders the login form with the one message
  \<open>incorrect username or password\<close> flashed; the session and the store stay as they
  were.
\<close>

theorem login_failure_generic:
  assumes "wf_db (db s)" and "req_method req = POST"
    and "form req ''username'' = Some username" and "form req ''password'' = Some password"
    and "username \<notin> set (map u_username (user_table (db s))) \<or>
         (\<exists>u\<in>set (user_table (db s)).
            u_username u = username \<and> \<not> check_password_hash (u_password u) password)"
  shows "login check_password_hash req s =
           (Inr (Render ''auth/login.html'' NoArgs),
            s\<lparr>flashes := flashes s @ [''incorrect username or password'']\<rparr>) \<and>
         session (snd (login check_password_hash req s)) = session s \<and>
         db (snd (login check_password_hash req s)) = db s"
proof -
  from assms(5) show ?thesis
  proof
    assume "username \<notin> set (map u_username (user_table (db s)))"
    then have "select_user_by_username (db s) username = None"
      by (auto simp: select_user_by_username_def find_None_iff_set)
    with assms show ?thesis by (simp add: login_def flash_def)
  next
    assume "\<exists>u\<in>set (user_table (db s)).
              u_username u = username \<and> \<not> check_password_hash (u_password u) password"
    then obtain u where u: "u \<in> set (user_table (db s))" "u_username u = username"
      "\<not> check_password_hash (u_password u) password" by blast
    with assms(1) have "select_user_by_username (db s) username = Some u"
      using select_user_by_username_present [of "db s" u] by simp
    with u assms show ?thesis by (simp add: login_def flash_def)
  qed
qed

theorem login_failure_generic_witness:
  "wf_db (db bob_state) \<and>
   ''carol'' \<notin> set (map u_username (user_table (db bob_state))) \<and>
   login ex_check (credentials_form ''carol'' ''pw1'') bob_state =
     (Inr (Render ''auth/login.html'' NoArgs),
      bob_state\<lparr>flashes := flashes bob_state @ [''incorrect username or password'']\<rparr>) \<and>
   alice \<in> set (user_table (db bob_state)) \<and> \<not> ex_check (u_password alice) ''bad'' \<and>
   login ex_check (credentials_form ''alice'' ''bad'') bob_state =
     (Inr (Render ''auth/login.html'' NoArgs),
      bob_state\<lparr>flashes := flashes bob_state @ [''incorrect username or password'']\<rparr>)"
proof -
  have h: "wf_db (db bob_state)" using wf_ex_db by (simp add: bob_state_def)
  have a: "''carol'' \<notin> set (map u_username (user_table (db bob_state)))"
    by (simp add: ex_defs)
  have b: "\<exists>u\<in>set (user_table (db bob_state)).
             u_username u = ''alice'' \<and> \<not> ex_check (u_password u) ''bad''"
    by (simp add: ex_defs)
  have m: "alice \<in> set (user_table (db bob_state)) \<and> \<not> ex_check (u_password alice) ''bad''"
    by (simp add: ex_defs)
  show ?thesis
    using login_failure_generic [of bob_state "credentials_form ''carol'' ''pw1''" "''carol''"
        "''pw1''" ex_check]
      login_failure_generic [of bob_state "credentials_form ''alice'' ''bad''" "''alice''"
        "''bad''" ex_check] h a b m
    by (simp add: req_defs)
qed

text \<open>
  Claim C5, as stated, fails: for the registered username \<open>alice\<close> and the empty
  password, \<open>register\<close> flashes \<open>password not provided\<close>, not the conflict message
  (the validation of the form runs before the insert).
\<close>

theorem register_conflict_empty_password_counterexample:
  "''alice'' \<in> set (map u_username (user_table (db anon_state))) \<and>
   register ex_hash (credentials_form ''alice'' []) anon_state =
     (Inr (Render ''auth/register.html'' NoArgs),
      anon_state\<lparr>flashes := [''password not provided'']\<rparr>) \<and>
   flashes (snd (register ex_hash (credentials_form ''alice'' []) anon_state)) \<noteq>
     [''user alice is already registered'']"
  by (simp add: register_def flash_def ex_defs req_defs)

text \<open>
  Claim C5, amended. For a non-empty username that is already in the user table,
  \<open>register\<close> renders the form again and leaves the store unchanged; the flashed
  message is \<open>user U is already registered\<close> when the password is non-empty and
  \<open>password not provided\<close> when it is empty. The \<open>IntegrityError\<close> of the insert
  never leaves the view.
\<close>

theorem register_conflict:
  assumes "username \<in> set (map u_username (user_table (db s)))" and "username \<noteq> []"
    and "req_method req = POST" and "form req ''username'' = Some username"
    and "form req ''password'' = Some password"
  shows "register generate_password_hash req s =
           (Inr (Render ''auth/register.html'' NoArgs),
            s\<lparr>flashes := flashes s @
                 [if password = [] then ''password not provided''
                  else ''user '' @ username @ '' is already registered'']\<rparr>)"
  using assms by (simp add: register_def insert_user_def flash_def)

theorem register_conflict_witness:
  "''alice'' \<in> set (map u_username (user_table (db anon_state))) \<and> ''alice'' \<noteq> [] \<and>
   req_method (credentials_form ''alice'' ''pw9'') = POST \<and>
   form (credentials_form ''alice'' ''pw9'') ''username'' = Some ''alice'' \<and>
   form (credentials_form ''alice'' ''pw9'') ''password'' = Some ''pw9'' \<and>
   register ex_hash (credentials_form ''alice'' ''pw9'') anon_state =
     (Inr (Render ''auth/register.html'' NoArgs),
      anon_state\<lparr>flashes := [''user alice is already registered'']\<rparr>)"
  using register_conflict [of "''alice''" anon_state "credentials_form ''alice'' ''pw9''"
      "''pw9''" ex_hash]
  by (simp add: ex_defs req_defs)




text \<open>
  Claim C7. An update of an existing post by its author with a non-empty title redirects
  to the index; the user table is unchanged, every other post row is unchanged, and the
  post's row differs from the old one in \<open>title\<close> and \<open>body\<close> only: \<open>id\<close>,
  \<open>author_id\<close> and \<open>created\<close> are the old ones.
\<close>

theorem update_frame:
  assumes "wf_db (db s)" and "ids_in_range (db s)"
    and "p \<in> set (post_table (db s))" and "u \<in> set (user_table (db s))"
    and "p_author_id p = u_id u" and "title \<noteq> []"
    and "req_method req = POST" and "form req ''title'' = Some title"
    and "form req ''body'' = Some body"
  shows "fst (update (Some u) (p_id p) req s) = Inr (Redirect ''blog.index'') \<and>
         user_table (db (snd (update (Some u) (p_id p) req s))) = user_table (db s) \<and>
         post_table (db (snd (update (Some u) (p_id p) req s))) =
           map (\<lambda>q. if q = p then q\<lparr>p_title := title, p_body := body\<rparr> else q)
             (post_table (db s)) \<and>
         p_author_id (p\<lparr>p_title := title, p_body := body\<rparr>) = p_author_id p \<and>
         p_created (p\<lparr>p_title := title, p_body := body\<rparr>) = p_created p \<and>
         p_id (p\<lparr>p_title := title, p_body := body\<rparr>) = p_id p"
proof -
  from assms have "get_post (db s) (Some u) (p_id p) True = Inr (join_row p u)"
    by (simp add: get_post_def select_post_by_id_owned)
  with assms have "update (Some u) (p_id p) req s =
      (Inr (Redirect ''blog.index''), s\<lparr>db := update_post (db s) title body (p_id p)\<rparr>)"
    by (simp add: update_def login_required_def update_view_def)
  moreover from assms have "post_table (update_post (db s) title body (p_id p)) =
      map (\<lambda>q. if q = p then q\<lparr>p_title := title, p_body := body\<rparr> else q) (post_table (db s))"
    by (simp add: update_post_def wf_db_def update_post_rows)
  moreover have "user_table (update_post (db s) title body (p_id p)) = user_table (db s)"
    by (simp add: update_post_def)
  ultimately show ?thesis by simp
qed

theorem update_frame_witness:
  "wf_db (db alice_state) \<and> ids_in_range (db alice_state) \<and> post1 \<in> set (post_table (db alice_state)) \<and>
   alice \<in> set (user_table (db alice_state)) \<and> p_author_id post1 = u_id alice \<and>
   ''T2'' \<noteq> [] \<and> req_method (post_form ''T2'' ''B2'') = POST \<and>
   form (post_form ''T2'' ''B2'') ''title'' = Some ''T2'' \<and>
   form (post_form ''T2'' ''B2'') ''body'' = Some ''B2'' \<and>
   fst (update (Some alice) (p_id post1) (post_form ''T2'' ''B2'') alice_state) =
     Inr (Redirect ''blog.index'') \<and>
   user_table (db (snd (update (Some alice) (p_id post1) (post_form ''T2'' ''B2'') alice_state))) =
     [alice, bob] \<and>
   post_table (db (snd (update (Some alice) (p_id post1) (post_form ''T2'' ''B2'') alice_state))) =
     [\<lparr>p_id = 1, p_title = ''T2'', p_body = ''B2'', p_created = 100, p_author_id = 1\<rparr>,
      post2, post3]"
proof -
  have h: "wf_db (db alice_state)" using wf_ex_db by (simp add: alice_state_def)
  have r: "ids_in_range (db alice_state)"
    using ids_in_range_ex_db by (simp add: alice_state_def)
  show ?thesis
    using update_frame [of alice_state post1 alice "''T2''" "post_form ''T2'' ''B2''" "''B2''"]
      h r
    by (simp add: ex_defs req_defs)
qed



text \<open>
  Claim C9, as stated, fails: an anonymous \<open>POST\<close> to \<open>/create\<close> whose form has the
  title \<open>T\<close> and no body field ends in the \<open>BadRequestKeyError\<close> of
  \<open>request.form['body']\<close>, raised before \<open>g.user\<close> is read, not in the \<open>TypeError\<close> of
  \<open>g.user['id']\<close>.
\<close>

theorem anonymous_create_title_only_counterexample:
  "load_logged_in_user anon_state = None \<and> req_method (title_form ''T'') = POST \<and>
   form (title_form ''T'') ''title'' = Some ''T'' \<and>
   handle_request ex_hash ex_check 400 BlogCreate (title_form ''T'') anon_state =
     (Inl (BadRequestKeyError ''body''), anon_state) \<and>
   handle_request ex_hash ex_check 400 BlogCreate (title_form ''T'') anon_state \<noteq>
     (Inl TypeError, anon_state)"
  by (simp add: handle_request_def load_logged_in_user_def create_def anon_state_def req_defs)

text \<open>
  Claim C9, amended. A \<open>POST\<close> to \<open>/create\<close> with a non-empty title, in a request whose
  \<open>g.user\<close> resolves to \<open>None\<close>, never inserts and is never answered with the redirect
  to the login view: the state, and so the post table, is unchanged. When the form has a
  body field the view ends in the \<open>TypeError\<close> of \<open>g.user['id']\<close>, raised before the
  insert; when it has none the view ends in the \<open>BadRequestKeyError\<close> of
  \<open>request.form['body']\<close>.
\<close>

theorem anonymous_create_never_inserts:
  assumes "load_logged_in_user s = None" and "req_method req = POST"
    and "form req ''title'' = Some title" and "title \<noteq> []"
  shows "handle_request generate_password_hash check_password_hash now BlogCreate req s =
           (Inl (case form req ''body'' of
                   None \<Rightarrow> BadRequestKeyError ''body''
                 | Some body \<Rightarrow> TypeError), s) \<and>
         db (snd (handle_request generate_password_hash check_password_hash now BlogCreate
           req s)) = db s \<and>
         fst (handle_request generate_password_hash check_password_hash now BlogCreate req s)
           \<noteq> Inr (Redirect ''auth.login'')"
  using assms by (simp add: handle_request_def create_def split: option.splits)

theorem anonymous_create_never_inserts_witness:
  "load_logged_in_user stale_state = None \<and> req_method (post_form ''T'' ''B'') = POST \<and>
   form (post_form ''T'' ''B'') ''title'' = Some ''T'' \<and> ''T'' \<noteq> [] \<and>
   handle_request ex_hash ex_check 400 BlogCreate (post_form ''T'' ''B'') stale_state =
     (Inl TypeError, stale_state) \<and>
   post_table (db (snd (handle_request ex_hash ex_check 400 BlogCreate (post_form ''T'' ''B'')
     stale_state))) = [post1, post2, post3] \<and>
   req_method (title_form ''T'') = POST \<and> form (title_form ''T'') ''title'' = Some ''T'' \<and>
   handle_request ex_hash ex_check 400 BlogCreate (title_form ''T'') stale_state =
     (Inl (BadRequestKeyError ''body''), stale_state) \<and>
   post_table (db (snd (handle_request ex_hash ex_check 400 BlogCreate (title_form ''T'')
     stale_state))) = [post1, post2, post3]"
proof -
  have h: "load_logged_in_user stale_state = None"
    by (simp add: load_logged_in_user_def select_user_by_id_def ex_defs)
  show ?thesis
    using anonymous_create_never_inserts [of stale_state "post_form ''T'' ''B''" "''T''"
        ex_hash ex_check 400]
      anonymous_create_never_inserts [of stale_state "title_form ''T''" "''T''"
        ex_hash ex_check 400] h
    by (simp add: req_defs stale_state_def ex_db_def)
qed

text \<open>
  Claim C10. A post row whose \<open>author_id\<close> is no user's id is in no row of the index
  listing, and \<open>get_post\<close> of its id is aborted with 404, with or without the author
  check, although the row is in the post table.
\<close>

theorem orphan_post_invisible:
  assumes "wf_db (db s)" and "ids_in_range (db s)" and "p \<in> set (post_table (db s))"
    and "p_author_id p \<notin> set (map u_id (user_table (db s)))"
  shows "index req s = (Inr (Render ''blog/index.html'' (Posts (select_posts (db s)))), s) \<and>
         p_id p \<notin> set (map j_id (select_posts (db s))) \<and>
         get_post (db s) g_user (p_id p) check_author =
           Inl (Abort 404 (Some (''post id '' @ str_int (p_id p) @ '' does not exist'')))"
proof -
  from assms have none: "select_post_by_id (db s) (p_id p) = Inr None"
    by (rule select_post_by_id_orphan)
  then have "p_id p \<notin> set (map j_id (join_post_user (db s)))"
    by (auto simp: select_post_by_id_def find_None_iff_set split: if_splits)
  then have "p_id p \<notin> set (map j_id (select_posts (db s)))"
    by (simp add: select_posts_def)
  with none show ?thesis by (simp add: index_def get_post_def)
qed

theorem orphan_post_invisible_witness:
  "wf_db (db anon_state) \<and> ids_in_range (db anon_state) \<and> post3 \<in> set (post_table (db anon_state)) \<and>
   p_author_id post3 \<notin> set (map u_id (user_table (db anon_state))) \<and>
   p_id post3 \<notin> set (map j_id (select_posts (db anon_state))) \<and>
   get_post (db anon_state) None (p_id post3) False =
     Inl (Abort 404 (Some ''post id 3 does not exist''))"
proof -
  have h: "wf_db (db anon_state)" using wf_ex_db by (simp add: anon_state_def)
  have r: "ids_in_range (db anon_state)"
    using ids_in_range_ex_db by (simp add: anon_state_def)
  have m: "post3 \<in> set (post_table (db anon_state))" by (simp add: ex_defs)
  have a: "p_author_id post3 \<notin> set (map u_id (user_table (db anon_state)))"
    by (simp add: ex_defs)
  have i: "p_id post3 = 3" by (simp add: post3_def)
  have "str_int 3 = ''3''" by (simp add: str_int_def str_nat.simps)
  with orphan_post_invisible [OF h r m a, of get_request None False] h r m a i
  show ?thesis by simp
qed

end
